theory Spec2Isabelle
  imports Main "HOL-Library.AList" "HOL-Library.Product_Lexorder" "HOL-Library.Sublist"
begin

section \<open>Data model (models.py)\<close>

text \<open>
  Python strings whose content is ASCII (usernames, dates, identifiers) are \<open>string\<close>.
  The display string is built from a non-ASCII literal, and Python counts a \<open>str\<close> in
  code points, so it is a list of code points.
\<close>

type_synonym codepoint = nat

text \<open>The dataclass \<open>Score\<close>; its field \<open>id\<close> is named \<open>score_id\<close> here.\<close>

record Score =
  username :: string
  guesses :: int
  time_seconds :: int
  puzzle_date :: string
  score_id :: string

text \<open>The dataclass \<open>LeaderboardEntry\<close>; the fields it shares with \<open>Score\<close> carry the
  prefix \<open>entry_\<close>.\<close>

record LeaderboardEntry =
  rank :: int
  entry_username :: string
  entry_guesses :: int
  guesses_display :: "codepoint list"
  entry_time_seconds :: int

section \<open>Username generation data (leaderboard_service.py)\<close>

definition ADJECTIVES :: "string list" where
  "ADJECTIVES =
    [''Swift'', ''Brave'', ''Clever'', ''Mighty'', ''Noble'',
     ''Bold'', ''Quick'', ''Sharp'', ''Bright'', ''Keen'',
     ''Agile'', ''Fierce'', ''Lucky'', ''Calm'', ''Wise'',
     ''Golden'', ''Silver'', ''Cosmic'', ''Epic'', ''Grand'',
     ''Royal'', ''Mystic'', ''Ancient'', ''Stellar'', ''Thunder'']"

definition NOUNS :: "string list" where
  "NOUNS =
    [''Falcon'', ''Otter'', ''Wolf'', ''Eagle'', ''Bear'',
     ''Tiger'', ''Lion'', ''Hawk'', ''Fox'', ''Deer'',
     ''Panda'', ''Koala'', ''Shark'', ''Dragon'', ''Phoenix'',
     ''Mustang'', ''Aggie'', ''Knight'', ''Warrior'', ''Champion'',
     ''Legend'', ''Pioneer'', ''Voyager'', ''Ranger'', ''Scout'']"

section \<open>The environment of one call\<close>

text \<open>
  \<open>submit_score\<close> reads three values it does not compute: two draws of the random
  generator (one per \<open>random.choice\<close>) and the string of a fresh \<open>uuid.uuid4()\<close>.
  They are passed in explicitly.
\<close>

record draws =
  adjective_draw :: nat
  noun_draw :: nat
  uuid_draw :: string

text \<open>\<open>random.choice(seq)\<close> returns \<open>seq[i]\<close> for an index \<open>i\<close> below \<open>len(seq)\<close> chosen
  by the generator; the raw draw is reduced to such an index. Both lists it is called on
  are non-empty constants.\<close>

definition choice :: "'a list \<Rightarrow> nat \<Rightarrow> 'a" where
  "choice seq r = seq ! (r mod length seq)"

definition generate_username :: "draws \<Rightarrow> string" where
  "generate_username rnd =
     (let adjective = choice ADJECTIVES (adjective_draw rnd);
          noun = choice NOUNS (noun_draw rnd)
      in adjective @ noun)"

section \<open>The service state and its errors\<close>

text \<open>
  \<open>_scores\<close> is a Python dict from puzzle date to a list of scores. A dict keeps its
  keys in insertion order and \<open>get_all_dates\<close> returns them in that order, so it is an
  association list: \<open>AList.update\<close> replaces the value of a present key in place and puts
  a new key at the end, as the dict does.
\<close>

type_synonym scores_dict = "(string \<times> Score list) list"

datatype py_error = ValueError string | KeyError string

definition init_scores :: scores_dict where
  "init_scores = []"

section \<open>Score submission\<close>

definition submit_score ::
  "scores_dict \<Rightarrow> draws \<Rightarrow> int \<Rightarrow> int \<Rightarrow> string \<Rightarrow> string option
     \<Rightarrow> py_error + (scores_dict \<times> Score)" where
  "submit_score scores rnd g t pd uname =
     (if \<not> (1 \<le> g \<and> g \<le> 6) then Inl (ValueError ''Guesses must be between 1 and 6'')
      else
        let name = (case uname of None \<Rightarrow> generate_username rnd | Some u \<Rightarrow> u);
            score = \<lparr>username = name, guesses = g, time_seconds = t,
                     puzzle_date = pd, score_id = uuid_draw rnd\<rparr>;
            scores1 = (if map_of scores pd = None then AList.update pd [] scores else scores)
        in case map_of scores1 pd of
             None \<Rightarrow> Inl (KeyError pd)
           | Some day \<Rightarrow> Inr (AList.update pd (day @ [score]) scores1, score))"

section \<open>Leaderboard retrieval\<close>

text \<open>\<open>sorted(scores, key=...)\<close> is Python's stable sort by key; a stable sort has one
  result, which the library's insertion sort by key computes. The key is a pair of
  integers, compared lexicographically as Python compares tuples.\<close>

definition py_sorted :: "('a \<Rightarrow> int \<times> int) \<Rightarrow> 'a list \<Rightarrow> 'a list" where
  "py_sorted key xs = sort_key key xs"

text \<open>The slice \<open>xs[:limit]\<close>: a negative bound counts from the end, and no bound is out
  of range.\<close>

definition slice_to :: "'a list \<Rightarrow> int \<Rightarrow> 'a list" where
  "slice_to xs limit =
     (if 0 \<le> limit then take (nat limit) xs
      else take (nat (int (length xs) + limit)) xs)"

text \<open>\<open>s * n\<close> on a string: the empty string when \<open>n\<close> is not positive.\<close>

definition str_mul :: "codepoint list \<Rightarrow> int \<Rightarrow> codepoint list" where
  "str_mul s n = (if n \<le> 0 then [] else concat (replicate (nat n) s))"

text \<open>The literal of \<open>_format_guesses_emoji\<close> as the source file holds it: the bytes
  E6 B8 B8 EB A6 B4, that is the two code points U+6E38 and U+B9B4.\<close>

definition MARKER :: "codepoint list" where
  "MARKER = [0x6E38, 0xB9B4]"

text \<open>The glyph the documentation speaks of. The docstring of \<open>_format_guesses_emoji\<close>
  promises a "string of green block emojis", and the usage example of \<open>LeaderboardEntry\<close>
  in models.py writes the display of three guesses as three times the bytes F0 9F 9F A9,
  the single code point U+1F7E9.\<close>

definition GREEN_BLOCK :: codepoint where
  "GREEN_BLOCK = 0x1F7E9"

definition format_guesses_emoji :: "int \<Rightarrow> codepoint list" where
  "format_guesses_emoji g = str_mul MARKER g"

text \<open>The loop over \<open>enumerate(top_scores, start=1)\<close>, appending one entry per score;
  \<open>make_entry\<close> is the constructor call of its body.\<close>

definition make_entry :: "int \<Rightarrow> Score \<Rightarrow> LeaderboardEntry" where
  "make_entry r score =
     \<lparr>rank = r, entry_username = username score,
      entry_guesses = guesses score,
      guesses_display = format_guesses_emoji (guesses score),
      entry_time_seconds = time_seconds score\<rparr>"

fun entries_loop :: "int \<Rightarrow> Score list \<Rightarrow> LeaderboardEntry list \<Rightarrow> LeaderboardEntry list" where
  "entries_loop r [] entries = entries"
| "entries_loop r (score # rest) entries =
     entries_loop (r + 1) rest (entries @ [make_entry r score])"

definition sort_key_of :: "Score \<Rightarrow> int \<times> int" where
  "sort_key_of s = (guesses s, time_seconds s)"

definition day_scores :: "scores_dict \<Rightarrow> string \<Rightarrow> Score list" where
  "day_scores scores pd = (case map_of scores pd of None \<Rightarrow> [] | Some day \<Rightarrow> day)"

definition get_leaderboard :: "scores_dict \<Rightarrow> string \<Rightarrow> int \<Rightarrow> LeaderboardEntry list" where
  "get_leaderboard scores pd limit =
     (let day = day_scores scores pd;
          sorted_scores = py_sorted sort_key_of day;
          top_scores = slice_to sorted_scores limit
      in entries_loop 1 top_scores [])"

section \<open>Helper methods\<close>

definition get_all_dates :: "scores_dict \<Rightarrow> string list" where
  "get_all_dates scores = map fst scores"

text \<open>\<open>if puzzle_date:\<close> is false for \<open>None\<close> and for the empty string.\<close>

definition clear_scores :: "scores_dict \<Rightarrow> string option \<Rightarrow> scores_dict" where
  "clear_scores scores pd =
     (case pd of
        None \<Rightarrow> []
      | Some d \<Rightarrow> if d = [] then [] else AList.delete d scores)"

section \<open>Sequences of calls on one service\<close>

datatype call =
    SubmitScore draws int int string "string option"
  | GetLeaderboard string int
  | GetAllDates
  | ClearScores "string option"

datatype response =
    Submitted Score
  | Raised py_error
  | Entries "LeaderboardEntry list"
  | Dates "string list"
  | Cleared

text \<open>One call: the state after it and what the caller gets. A call that raises has
  changed nothing when it raises.\<close>

fun call_service :: "scores_dict \<Rightarrow> call \<Rightarrow> scores_dict \<times> response" where
  "call_service scores (SubmitScore rnd g t pd uname) =
     (case submit_score scores rnd g t pd uname of
        Inl e \<Rightarrow> (scores, Raised e)
      | Inr (scores', score) \<Rightarrow> (scores', Submitted score))"
| "call_service scores (GetLeaderboard pd limit) = (scores, Entries (get_leaderboard scores pd limit))"
| "call_service scores GetAllDates = (scores, Dates (get_all_dates scores))"
| "call_service scores (ClearScores pd) = (clear_scores scores pd, Cleared)"

fun run :: "scores_dict \<Rightarrow> call list \<Rightarrow> scores_dict" where
  "run scores [] = scores"
| "run scores (c # cs) = run (fst (call_service scores c)) cs"

definition all_records :: "scores_dict \<Rightarrow> Score list" where
  "all_records scores = concat (map snd scores)"

section \<open>Auxiliary definitions for the proofs\<close>

text \<open>The dict of \<open>submit_score\<close> after the lazy creation of the day's list (the
  statement \<open>if puzzle_date not in self._scores: self._scores[puzzle_date] = []\<close>).\<close>

definition with_day :: "scores_dict \<Rightarrow> string \<Rightarrow> scores_dict" where
  "with_day scores pd = (if map_of scores pd = None then AList.update pd [] scores else scores)"

text \<open>What the HTTP handler checks before it calls \<open>submit_score\<close>
  (api/leaderboard.py: \<open>time_seconds < 0\<close> is answered with status 400): a call whose
  time is not negative. The service itself has no such check.\<close>

fun time_nonneg :: "call \<Rightarrow> bool" where
  "time_nonneg (SubmitScore rnd g t pd uname) = (0 \<le> t)"
| "time_nonneg _ = True"

section \<open>A concrete run\<close>

text \<open>Four accepted submissions for one day, two of them tied on guesses and time, and
  one rejected submission. The first three are the spec's scenario A.\<close>

definition example_draws :: "nat \<Rightarrow> string \<Rightarrow> draws" where
  "example_draws n u = \<lparr>adjective_draw = n, noun_draw = n + 25, uuid_draw = u\<rparr>"

definition example_calls :: "call list" where
  "example_calls =
    [SubmitScore (example_draws 0 ''id-1'') 4 120 ''2026-02-02'' None,
     SubmitScore (example_draws 1 ''id-2'') 3 95 ''2026-02-02'' None,
     SubmitScore (example_draws 2 ''id-3'') 3 200 ''2026-02-02'' None,
     SubmitScore (example_draws 3 ''id-4'') 7 10 ''2026-02-02'' None,
     GetLeaderboard ''2026-02-02'' 5,
     SubmitScore (example_draws 4 ''id-5'') 3 95 ''2026-02-02'' (Some ''Second'')]"

definition example_day :: "Score list" where
  "example_day =
    [\<lparr>username = ''SwiftFalcon'', guesses = 4, time_seconds = 120,
      puzzle_date = ''2026-02-02'', score_id = ''id-1''\<rparr>,
     \<lparr>username = ''BraveOtter'', guesses = 3, time_seconds = 95,
      puzzle_date = ''2026-02-02'', score_id = ''id-2''\<rparr>,
     \<lparr>username = ''CleverWolf'', guesses = 3, time_seconds = 200,
      puzzle_date = ''2026-02-02'', score_id = ''id-3''\<rparr>,
     \<lparr>username = ''Second'', guesses = 3, time_seconds = 95,
      puzzle_date = ''2026-02-02'', score_id = ''id-5''\<rparr>]"

definition example_scores :: scores_dict where
  "example_scores = [(''2026-02-02'', example_day)]"

definition example_entries :: "LeaderboardEntry list" where
  "example_entries =
    [\<lparr>rank = 1, entry_username = ''BraveOtter'', entry_guesses = 3,
      guesses_display = MARKER @ MARKER @ MARKER, entry_time_seconds = 95\<rparr>,
     \<lparr>rank = 2, entry_username = ''Second'', entry_guesses = 3,
      guesses_display = MARKER @ MARKER @ MARKER, entry_time_seconds = 95\<rparr>,
     \<lparr>rank = 3, entry_username = ''CleverWolf'', entry_guesses = 3,
      guesses_display = MARKER @ MARKER @ MARKER, entry_time_seconds = 200\<rparr>,
     \<lparr>rank = 4, entry_username = ''SwiftFalcon'', entry_guesses = 4,
      guesses_display = MARKER @ MARKER @ MARKER @ MARKER, entry_time_seconds = 120\<rparr>]"

text \<open>A submission for the following day.\<close>

definition example_next :: Score where
  "example_next =
    \<lparr>username = ''CleverWolf'', guesses = 5, time_seconds = 300,
     puzzle_date = ''2026-02-03'', score_id = ''id-6''\<rparr>"

section \<open>The ranking loop\<close>

lemma entries_loop_enumerate:
  "entries_loop (r + int n) xs acc =
     acc @ map (\<lambda>(i, s). make_entry (r + int i) s) (enumerate n xs)"
proof (induction xs arbitrary: n acc)
  case Nil
  then show ?case by simp
next
  case (Cons x xs)
  have "entries_loop (r + int n) (x # xs) acc =
          entries_loop (r + int (Suc n)) xs (acc @ [make_entry (r + int n) x])"
    by (simp add: ac_simps)
  also have "\<dots> = (acc @ [make_entry (r + int n) x]) @
                   map (\<lambda>(i, s). make_entry (r + int i) s) (enumerate (Suc n) xs)"
    by (rule Cons.IH)
  finally show ?case by simp
qed

lemma get_leaderboard_enumerate:
  "get_leaderboard scores pd limit =
     map (\<lambda>(i, s). make_entry (1 + int i) s)
       (enumerate 0 (slice_to (py_sorted sort_key_of (day_scores scores pd)) limit))"
  using entries_loop_enumerate [of 1 0 _ "[]"]
  by (simp add: get_leaderboard_def Let_def)

lemma get_leaderboard_length:
  "length (get_leaderboard scores pd limit) =
     length (slice_to (py_sorted sort_key_of (day_scores scores pd)) limit)"
  by (simp add: get_leaderboard_enumerate)

lemma get_leaderboard_nth:
  "i < length (get_leaderboard scores pd limit) \<Longrightarrow>
     get_leaderboard scores pd limit ! i =
       make_entry (1 + int i) (slice_to (py_sorted sort_key_of (day_scores scores pd)) limit ! i)"
  by (simp add: get_leaderboard_enumerate nth_enumerate_eq)

lemma slice_to_sorted:
  "sorted (map key xs) \<Longrightarrow> sorted (map key (slice_to xs limit))"
  by (simp add: slice_to_def sorted_wrt_take take_map[symmetric] del: take_map)

lemma top_sorted:
  "sorted (map sort_key_of (slice_to (py_sorted sort_key_of xs) limit))"
  by (rule slice_to_sorted) (simp add: py_sorted_def)

lemma slice_to_prefix: "prefix (slice_to xs limit) xs"
  by (simp add: slice_to_def take_is_prefix)

lemma make_entry_fields:
  "rank (make_entry r s) = r"
  "entry_username (make_entry r s) = username s"
  "entry_guesses (make_entry r s) = guesses s"
  "entry_time_seconds (make_entry r s) = time_seconds s"
  "guesses_display (make_entry r s) = format_guesses_emoji (guesses s)"
  by (simp_all add: make_entry_def)

lemma get_leaderboard_ranks:
  "map rank (get_leaderboard scores pd limit) =
     map (\<lambda>i. 1 + int i) [0..<length (get_leaderboard scores pd limit)]"
  by (rule nth_equalityI) (simp_all add: get_leaderboard_nth make_entry_fields)

lemma ordering_by_index:
  assumes "i < j" and "j < length (get_leaderboard scores pd limit)"
  shows "entry_guesses (get_leaderboard scores pd limit ! i)
           < entry_guesses (get_leaderboard scores pd limit ! j)
       \<or> entry_guesses (get_leaderboard scores pd limit ! i)
           = entry_guesses (get_leaderboard scores pd limit ! j)
         \<and> entry_time_seconds (get_leaderboard scores pd limit ! i)
           \<le> entry_time_seconds (get_leaderboard scores pd limit ! j)"
proof -
  let ?top = "slice_to (py_sorted sort_key_of (day_scores scores pd)) limit"
  from assms have j: "j < length ?top" and i: "i < length ?top"
    by (simp_all add: get_leaderboard_length)
  have "map sort_key_of ?top ! i \<le> map sort_key_of ?top ! j"
    using top_sorted assms(1) j by (intro sorted_nth_mono) simp_all
  with i j have "sort_key_of (?top ! i) \<le> sort_key_of (?top ! j)"
    by simp
  then have "guesses (?top ! i) < guesses (?top ! j)
      \<or> guesses (?top ! i) = guesses (?top ! j) \<and> time_seconds (?top ! i) \<le> time_seconds (?top ! j)"
    by (auto simp: sort_key_of_def less_eq_prod_def)
  with assms show ?thesis
    by (simp add: get_leaderboard_nth make_entry_fields)
qed

lemma entry_position:
  assumes "a \<in> set (get_leaderboard scores pd limit)"
  obtains i where "i < length (get_leaderboard scores pd limit)"
    and "a = get_leaderboard scores pd limit ! i" and "rank a = 1 + int i"
proof -
  from assms obtain i where i: "i < length (get_leaderboard scores pd limit)"
    and a: "get_leaderboard scores pd limit ! i = a"
    by (auto simp: in_set_conv_nth)
  have "rank (get_leaderboard scores pd limit ! i) = 1 + int i"
    by (simp add: get_leaderboard_nth [OF i] make_entry_fields)
  with i a that show thesis by blast
qed

lemma slice_to_length:
  "0 \<le> limit \<Longrightarrow> length (slice_to xs limit) = min (nat limit) (length xs)"
  by (simp add: slice_to_def min.commute)

lemma tie_order_prefix:
  "prefix
     (map (\<lambda>e. (entry_username e, entry_guesses e, entry_time_seconds e))
        (filter (\<lambda>e. (entry_guesses e, entry_time_seconds e) = k)
           (get_leaderboard scores pd limit)))
     (map (\<lambda>s. (username s, guesses s, time_seconds s))
        (filter (\<lambda>s. (guesses s, time_seconds s) = k) (day_scores scores pd)))"
proof -
  let ?day = "day_scores scores pd"
  let ?top = "slice_to (py_sorted sort_key_of ?day) limit"
  let ?core = "\<lambda>s. (username s, guesses s, time_seconds s)"
  let ?tied = "\<lambda>s. (guesses s, time_seconds s) = k"
  have "map (\<lambda>e. (entry_username e, entry_guesses e, entry_time_seconds e))
        (filter (\<lambda>e. (entry_guesses e, entry_time_seconds e) = k)
           (get_leaderboard scores pd limit))
      = map (?core \<circ> snd) (filter (?tied \<circ> snd) (enumerate 0 ?top))"
    by (simp add: get_leaderboard_enumerate filter_map comp_def case_prod_beta make_entry_fields)
  also have "\<dots> = map ?core (filter ?tied (map snd (enumerate 0 ?top)))"
    by (simp only: filter_map map_map)
  also have "\<dots> = map ?core (filter ?tied ?top)"
    by simp
  finally have eq: "map (\<lambda>e. (entry_username e, entry_guesses e, entry_time_seconds e))
        (filter (\<lambda>e. (entry_guesses e, entry_time_seconds e) = k)
           (get_leaderboard scores pd limit)) = map ?core (filter ?tied ?top)" .
  have "prefix (filter ?tied ?top) (filter ?tied (py_sorted sort_key_of ?day))"
    by (intro filter_mono_prefix slice_to_prefix)
  also have "filter ?tied (py_sorted sort_key_of ?day) = filter ?tied ?day"
    using sort_key_stable [of sort_key_of k ?day]
    by (simp add: py_sorted_def sort_key_of_def)
  finally have "prefix (map ?core (filter ?tied ?top)) (map ?core (filter ?tied ?day))"
    by (rule map_mono_prefix)
  with eq show ?thesis by simp
qed

section \<open>The store\<close>

lemma choice_mem: "seq \<noteq> [] \<Longrightarrow> choice seq r \<in> set seq"
  by (simp add: choice_def)

lemma ADJECTIVES_nonempty: "ADJECTIVES \<noteq> []"
  by (simp add: ADJECTIVES_def)

lemma NOUNS_nonempty: "NOUNS \<noteq> []"
  by (simp add: NOUNS_def)

lemma generate_username_form:
  "\<exists>a \<in> set ADJECTIVES. \<exists>n \<in> set NOUNS. generate_username rnd = a @ n"
  unfolding generate_username_def Let_def
  using choice_mem [OF ADJECTIVES_nonempty] choice_mem [OF NOUNS_nonempty] by blast

lemma with_day_lookup: "map_of (with_day scores pd) pd = Some (day_scores scores pd)"
  by (auto simp: with_day_def day_scores_def update_conv')

lemma with_day_other: "d \<noteq> pd \<Longrightarrow> map_of (with_day scores pd) d = map_of scores d"
  by (simp add: with_day_def update_conv')

lemma submit_score_Inr:
  "submit_score scores rnd g t pd uname = Inr (scores', score) \<longleftrightarrow>
     1 \<le> g \<and> g \<le> 6
     \<and> score = \<lparr>username = (case uname of None \<Rightarrow> generate_username rnd | Some u \<Rightarrow> u),
                 guesses = g, time_seconds = t, puzzle_date = pd, score_id = uuid_draw rnd\<rparr>
     \<and> scores' = AList.update pd (day_scores scores pd @ [score]) (with_day scores pd)"
  using with_day_lookup [of scores pd]
  by (auto simp: submit_score_def Let_def with_day_def split: if_splits option.splits)

lemma submit_score_Inl:
  "submit_score scores rnd g t pd uname = Inl e \<longleftrightarrow>
     \<not> (1 \<le> g \<and> g \<le> 6) \<and> e = ValueError ''Guesses must be between 1 and 6''"
  using with_day_lookup [of scores pd]
  by (auto simp: submit_score_def Let_def with_day_def split: if_splits option.splits)

lemma submit_score_succeeds:
  "1 \<le> g \<Longrightarrow> g \<le> 6 \<Longrightarrow> \<exists>scores' score. submit_score scores rnd g t pd uname = Inr (scores', score)"
  by (simp add: submit_score_Inr)

lemma all_records_update:
  "set (all_records (AList.update k v al)) \<subseteq> set v \<union> set (all_records al)"
  by (induction al) (auto simp: all_records_def)

lemma all_records_delete:
  "set (all_records (AList.delete k al)) \<subseteq> set (all_records al)"
  by (induction al) (auto simp: all_records_def)

lemma day_scores_subset: "set (day_scores scores pd) \<subseteq> set (all_records scores)"
proof (cases "map_of scores pd")
  case None
  then show ?thesis by (simp add: day_scores_def)
next
  case (Some day)
  then have "(pd, day) \<in> set scores" by (rule map_of_SomeD)
  then have "set day \<subseteq> set (all_records scores)"
    by (force simp: all_records_def)
  with Some show ?thesis by (simp add: day_scores_def)
qed

lemma all_records_with_day: "set (all_records (with_day scores pd)) \<subseteq> set (all_records scores)"
  using all_records_update [of pd "[]" scores] by (auto simp: with_day_def)

lemma submit_score_records:
  assumes "submit_score scores rnd g t pd uname = Inr (scores', score)"
  shows "set (all_records scores') \<subseteq> insert score (set (all_records scores))"
proof -
  from assms have "scores' = AList.update pd (day_scores scores pd @ [score]) (with_day scores pd)"
    by (simp add: submit_score_Inr)
  then have "set (all_records scores')
      \<subseteq> set (day_scores scores pd @ [score]) \<union> set (all_records (with_day scores pd))"
    by (simp only: all_records_update)
  with day_scores_subset [of scores pd] all_records_with_day [of scores pd]
  show ?thesis by auto
qed

lemma clear_scores_records:
  "set (all_records (clear_scores scores pd)) \<subseteq> set (all_records scores)"
proof (cases pd)
  case None
  then show ?thesis by (simp add: clear_scores_def all_records_def)
next
  case (Some d)
  then show ?thesis
    using all_records_delete [of d scores]
    by (cases "d = []") (simp_all add: clear_scores_def all_records_def)
qed

lemma call_service_records:
  assumes "\<forall>sc \<in> set (all_records scores). P (guesses sc) (time_seconds sc)"
    and "\<And>rnd g t pd uname. c = SubmitScore rnd g t pd uname \<Longrightarrow> 1 \<le> g \<Longrightarrow> g \<le> 6 \<Longrightarrow> P g t"
  shows "\<forall>sc \<in> set (all_records (fst (call_service scores c))). P (guesses sc) (time_seconds sc)"
proof (cases c)
  case (SubmitScore rnd g t pd uname)
  show ?thesis
  proof (cases "submit_score scores rnd g t pd uname")
    case (Inl e)
    with SubmitScore assms(1) show ?thesis by simp
  next
    case (Inr p)
    obtain scores' score where p: "p = (scores', score)" by (cases p)
    from Inr p have s: "submit_score scores rnd g t pd uname = Inr (scores', score)" by simp
    then have "guesses score = g" "time_seconds score = t" "1 \<le> g" "g \<le> 6"
      by (simp_all add: submit_score_Inr)
    with assms(2) [OF SubmitScore] have "P (guesses score) (time_seconds score)" by simp
    with submit_score_records [OF s] assms(1) SubmitScore Inr p show ?thesis by auto
  qed
next
  case (GetLeaderboard pd limit)
  with assms(1) show ?thesis by simp
next
  case GetAllDates
  with assms(1) show ?thesis by simp
next
  case (ClearScores pd)
  with assms(1) clear_scores_records [of scores pd] show ?thesis by auto
qed

lemma run_guesses_range:
  "\<forall>sc \<in> set (all_records scores). 1 \<le> guesses sc \<and> guesses sc \<le> 6 \<Longrightarrow>
   \<forall>sc \<in> set (all_records (run scores cs)). 1 \<le> guesses sc \<and> guesses sc \<le> 6"
proof (induction cs arbitrary: scores)
  case Nil
  then show ?case by simp
next
  case (Cons c cs)
  have "\<forall>sc \<in> set (all_records (fst (call_service scores c))). 1 \<le> guesses sc \<and> guesses sc \<le> 6"
  proof (rule call_service_records [where P = "\<lambda>g t. 1 \<le> g \<and> g \<le> 6"])
    show "\<forall>sc \<in> set (all_records scores). 1 \<le> guesses sc \<and> guesses sc \<le> 6"
      by (rule Cons.prems)
  next
    fix g :: int
    assume "1 \<le> g" and "g \<le> 6"
    then show "1 \<le> g \<and> g \<le> 6" ..
  qed
  then have "\<forall>sc \<in> set (all_records (run (fst (call_service scores c)) cs)).
      1 \<le> guesses sc \<and> guesses sc \<le> 6"
    by (rule Cons.IH)
  then show ?case by (simp only: run.simps)
qed

lemma run_time_nonneg:
  "\<forall>sc \<in> set (all_records scores). 0 \<le> time_seconds sc \<Longrightarrow> list_all time_nonneg cs \<Longrightarrow>
   \<forall>sc \<in> set (all_records (run scores cs)). 0 \<le> time_seconds sc"
proof (induction cs arbitrary: scores)
  case Nil
  then show ?case by simp
next
  case (Cons c cs)
  from Cons.prems(2) have c: "time_nonneg c" and cs: "list_all time_nonneg cs"
    by simp_all
  have "\<forall>sc \<in> set (all_records (fst (call_service scores c))). 0 \<le> time_seconds sc"
  proof (rule call_service_records [where P = "\<lambda>g t. 0 \<le> t"])
    show "\<forall>sc \<in> set (all_records scores). 0 \<le> time_seconds sc"
      by (rule Cons.prems(1))
  next
    fix rnd g t pd uname
    assume "c = SubmitScore rnd g t pd uname"
    with c show "0 \<le> t" by simp
  qed
  then have "\<forall>sc \<in> set (all_records (run (fst (call_service scores c)) cs)). 0 \<le> time_seconds sc"
    using cs by (rule Cons.IH)
  then show ?case by (simp only: run.simps)
qed

lemma all_records_init: "all_records init_scores = []"
  by (simp add: all_records_def init_scores_def)

section \<open>Evaluating the concrete run\<close>

lemma example_usernames:
  "generate_username (example_draws 0 u) = ''SwiftFalcon''"
  "generate_username (example_draws (Suc 0) u) = ''BraveOtter''"
  "generate_username (example_draws 2 u) = ''CleverWolf''"
  by (simp_all add: generate_username_def choice_def ADJECTIVES_def NOUNS_def example_draws_def)

lemma uuid_example_draws: "uuid_draw (example_draws n u) = u"
  by (simp add: example_draws_def)

lemma submit_score_ok:
  "1 \<le> g \<Longrightarrow> g \<le> 6 \<Longrightarrow>
   submit_score scores rnd g t pd uname =
     Inr (AList.update pd
            (day_scores scores pd @
              [\<lparr>username = (case uname of None \<Rightarrow> generate_username rnd | Some u \<Rightarrow> u),
                guesses = g, time_seconds = t, puzzle_date = pd, score_id = uuid_draw rnd\<rparr>])
            (with_day scores pd),
          \<lparr>username = (case uname of None \<Rightarrow> generate_username rnd | Some u \<Rightarrow> u),
            guesses = g, time_seconds = t, puzzle_date = pd, score_id = uuid_draw rnd\<rparr>)"
  by (simp add: submit_score_Inr)

lemma submit_score_rejects:
  "6 < g \<Longrightarrow> submit_score scores rnd g t pd uname
     = Inl (ValueError ''Guesses must be between 1 and 6'')"
  by (simp add: submit_score_Inl)

lemma example_run: "run init_scores example_calls = example_scores"
  by (simp add: example_calls_def example_scores_def example_day_def init_scores_def
      submit_score_ok submit_score_rejects example_usernames uuid_example_draws
      day_scores_def with_day_def)

lemma example_day_scores: "day_scores example_scores ''2026-02-02'' = example_day"
  by (simp add: example_scores_def day_scores_def)

lemma example_sorted:
  "py_sorted sort_key_of example_day =
     [example_day ! 1, example_day ! 3, example_day ! 2, example_day ! 0]"
  by (simp add: py_sorted_def sort_key_of_def example_day_def less_eq_prod_def)

lemma str_mul_values:
  "str_mul s 3 = s @ s @ s"
  "str_mul s 4 = s @ s @ s @ s"
  by (simp_all add: str_mul_def eval_nat_numeral)

lemma example_leaderboard:
  "get_leaderboard example_scores ''2026-02-02'' 5 = example_entries"
  by (simp add: get_leaderboard_def example_day_scores example_sorted slice_to_def
      make_entry_def format_guesses_emoji_def)
     (simp add: example_day_def example_entries_def str_mul_values)

lemma example_leaderboard_2:
  "get_leaderboard example_scores ''2026-02-02'' 2 = take 2 example_entries"
  by (simp add: get_leaderboard_def example_day_scores example_sorted slice_to_def
      make_entry_def format_guesses_emoji_def eval_nat_numeral)
     (simp add: example_day_def example_entries_def str_mul_values)

lemma example_first_submit:
  "submit_score init_scores (example_draws 0 ''id-1'') 4 120 ''2026-02-02'' None =
     Inr ([(''2026-02-02'', [example_day ! 0])], example_day ! 0)"
  by (simp add: submit_score_ok init_scores_def example_usernames uuid_example_draws
       day_scores_def with_day_def example_day_def)

lemma example_named_submit:
  "submit_score init_scores (example_draws 4 ''id-5'') 3 95 ''2026-02-02'' (Some ''Second'') =
     Inr ([(''2026-02-02'', [example_day ! 3])], example_day ! 3)"
  by (simp add: submit_score_ok init_scores_def uuid_example_draws
       day_scores_def with_day_def example_day_def)

lemma example_next_submit:
  "submit_score example_scores (example_draws 2 ''id-6'') 5 300 ''2026-02-03'' None =
     Inr (example_scores @ [(''2026-02-03'', [example_next])], example_next)"
  by (simp add: submit_score_ok example_scores_def example_usernames uuid_example_draws
       day_scores_def with_day_def example_next_def)

section \<open>Display strings and repeated queries\<close>

lemma slice_to_subset: "set (slice_to xs limit) \<subseteq> set xs"
  by (simp add: slice_to_def set_take_subset)

lemma entry_source:
  assumes "e \<in> set (get_leaderboard scores pd limit)"
  shows "\<exists>r s. s \<in> set (day_scores scores pd) \<and> e = make_entry r s"
proof -
  let ?top = "slice_to (py_sorted sort_key_of (day_scores scores pd)) limit"
  from assms obtain i s where "(i, s) \<in> set (enumerate 0 ?top)" and e: "e = make_entry (1 + int i) s"
    by (auto simp: get_leaderboard_enumerate)
  then have "(i, s) \<in> set (zip [0..<0 + length ?top] ?top)"
    by (simp only: enumerate_eq_zip)
  then have "s \<in> set ?top"
    by (rule set_zip_rightD)
  with slice_to_subset have "s \<in> set (py_sorted sort_key_of (day_scores scores pd))"
    by (rule subsetD)
  then have "s \<in> set (day_scores scores pd)"
    by (simp add: py_sorted_def)
  with e show ?thesis by blast
qed

lemma format_guesses_emoji_replicate:
  "format_guesses_emoji g = concat (replicate (nat g) MARKER)"
  by (simp add: format_guesses_emoji_def str_mul_def)

lemma length_concat_replicate: "length (concat (replicate n s)) = n * length s"
  by (induction n) simp_all

section \<open>The claims\<close>

subsection \<open>C1: the store invariant\<close>

text \<open>
  Claim C1, as the code has it. In every state reached from the empty store by any
  sequence of \<open>submit_score\<close>, \<open>get_leaderboard\<close>, \<open>clear_scores\<close> and
  \<open>get_all_dates\<close> calls, every stored score has \<open>1 \<le> guesses \<le> 6\<close>. The service does
  not look at \<open>time_seconds\<close>: every stored score has \<open>time_seconds \<ge> 0\<close> when every
  submission of the sequence was made with a time that is not negative, which is what the
  HTTP handler checks before it calls the service.
\<close>

theorem store_invariant:
  "(\<forall>sc \<in> set (all_records (run init_scores cs)). 1 \<le> guesses sc \<and> guesses sc \<le> 6)
   \<and> (list_all time_nonneg cs \<longrightarrow>
        (\<forall>sc \<in> set (all_records (run init_scores cs)). 0 \<le> time_seconds sc))"
  using run_guesses_range [of init_scores cs] run_time_nonneg [of init_scores cs]
  by (simp add: all_records_init)

theorem store_invariant_witness:
  "list_all time_nonneg example_calls
   \<and> example_day ! 0 \<in> set (all_records (run init_scores example_calls))
   \<and> 1 \<le> guesses (example_day ! 0) \<and> guesses (example_day ! 0) \<le> 6
   \<and> 0 \<le> time_seconds (example_day ! 0)"
proof -
  have ok: "list_all time_nonneg example_calls"
    by (simp add: example_calls_def)
  have mem: "example_day ! 0 \<in> set (all_records (run init_scores example_calls))"
    by (simp add: example_run all_records_def example_scores_def example_day_def)
  from store_invariant [of example_calls] ok mem show ?thesis
    by blast
qed

text \<open>
  Claim C1 as the spec states it fails: the service accepts a submission with a negative
  time and stores it. Here the empty store receives \<open>guesses = 3\<close>, \<open>time_seconds = -5\<close>.
\<close>

theorem store_accepts_negative_time:
  "submit_score init_scores (example_draws 0 ''id-1'') 3 (-5) ''2026-02-02'' None =
     Inr ([(''2026-02-02'',
            [\<lparr>username = ''SwiftFalcon'', guesses = 3, time_seconds = -5,
              puzzle_date = ''2026-02-02'', score_id = ''id-1''\<rparr>])],
          \<lparr>username = ''SwiftFalcon'', guesses = 3, time_seconds = -5,
            puzzle_date = ''2026-02-02'', score_id = ''id-1''\<rparr>)
   \<and> all_records
         (run init_scores [SubmitScore (example_draws 0 ''id-1'') 3 (-5) ''2026-02-02'' None]) =
       [\<lparr>username = ''SwiftFalcon'', guesses = 3, time_seconds = -5,
         puzzle_date = ''2026-02-02'', score_id = ''id-1''\<rparr>]"
  by (simp add: submit_score_ok init_scores_def example_usernames uuid_example_draws
       day_scores_def with_day_def all_records_def)

subsection \<open>C2: a number of guesses out of range is rejected\<close>

text \<open>
  Claim C2. For every store and every \<open>guesses\<close> outside 1..6, whatever the time, the date
  and the username, \<open>submit_score\<close> raises the ValueError and the store is the same
  afterwards; in particular the day's list has the length it had.
\<close>

theorem rejects_out_of_range:
  assumes "g < 1 \<or> 6 < g"
  shows "submit_score scores rnd g t pd uname = Inl (ValueError ''Guesses must be between 1 and 6'')
       \<and> call_service scores (SubmitScore rnd g t pd uname)
           = (scores, Raised (ValueError ''Guesses must be between 1 and 6''))
       \<and> length (day_scores (fst (call_service scores (SubmitScore rnd g t pd uname))) pd)
           = length (day_scores scores pd)"
proof -
  from assms have "submit_score scores rnd g t pd uname
      = Inl (ValueError ''Guesses must be between 1 and 6'')"
    by (auto simp: submit_score_Inl)
  then show ?thesis by simp
qed

theorem rejects_out_of_range_witness:
  "submit_score example_scores (example_draws 3 ''id-4'') 7 10 ''2026-02-02'' None
     = Inl (ValueError ''Guesses must be between 1 and 6'')
   \<and> call_service example_scores (SubmitScore (example_draws 3 ''id-4'') 7 10 ''2026-02-02'' None)
     = (example_scores, Raised (ValueError ''Guesses must be between 1 and 6''))
   \<and> length (day_scores (fst (call_service example_scores
         (SubmitScore (example_draws 3 ''id-4'') 7 10 ''2026-02-02'' None))) ''2026-02-02'')
     = length (day_scores example_scores ''2026-02-02'')"
proof -
  have "(7::int) < 1 \<or> 6 < (7::int)" by simp
  then show ?thesis by (rule rejects_out_of_range)
qed

subsection \<open>C3: the username of a submission\<close>

text \<open>
  Claim C3, as the code has it. A successful \<open>submit_score\<close> whose username argument is
  omitted (None) creates, stores and returns a score whose username is an element of
  ADJECTIVES followed, with nothing in between, by an element of NOUNS. A username that is
  given is stored as it is; the test of the code is \<open>username is None\<close>, so this includes
  the empty string.
\<close>

theorem username_of_submission:
  assumes "submit_score scores rnd g t pd uname = Inr (scores', score)"
  shows "(uname = None \<longrightarrow> (\<exists>a \<in> set ADJECTIVES. \<exists>n \<in> set NOUNS. username score = a @ n))
       \<and> (\<forall>u. uname = Some u \<longrightarrow> username score = u)
       \<and> last (day_scores scores' pd) = score"
proof -
  from assms have sc: "username score = (case uname of None \<Rightarrow> generate_username rnd | Some u \<Rightarrow> u)"
    and st: "scores' = AList.update pd (day_scores scores pd @ [score]) (with_day scores pd)"
    by (simp_all add: submit_score_Inr)
  from st have "day_scores scores' pd = day_scores scores pd @ [score]"
    by (simp add: day_scores_def update_conv')
  with sc generate_username_form [of rnd] show ?thesis by auto
qed

theorem username_of_submission_witness:
  "submit_score init_scores (example_draws 0 ''id-1'') 4 120 ''2026-02-02'' None =
     Inr ([(''2026-02-02'', [example_day ! 0])], example_day ! 0)
   \<and> username (example_day ! 0) = ''Swift'' @ ''Falcon''
   \<and> ''Swift'' \<in> set ADJECTIVES \<and> ''Falcon'' \<in> set NOUNS
   \<and> last (day_scores [(''2026-02-02'', [example_day ! 0])] ''2026-02-02'') = example_day ! 0
   \<and> submit_score init_scores (example_draws 4 ''id-5'') 3 95 ''2026-02-02'' (Some ''Second'') =
     Inr ([(''2026-02-02'', [example_day ! 3])], example_day ! 3)
   \<and> username (example_day ! 3) = ''Second''"
proof -
  have "username (example_day ! 0) = ''Swift'' @ ''Falcon''"
    and "''Swift'' \<in> set ADJECTIVES" and "''Falcon'' \<in> set NOUNS"
    by (simp_all add: example_day_def ADJECTIVES_def NOUNS_def)
  with username_of_submission [OF example_first_submit]
    username_of_submission [OF example_named_submit]
    example_first_submit example_named_submit
  show ?thesis by simp
qed

text \<open>
  Claim C3 as the spec states it fails for the empty string: it is not None, so no username
  is generated and the empty string is stored.
\<close>

theorem empty_username_is_stored:
  "submit_score init_scores (example_draws 0 ''id-1'') 3 95 ''2026-02-02'' (Some '''') =
     Inr ([(''2026-02-02'',
            [\<lparr>username = '''', guesses = 3, time_seconds = 95,
              puzzle_date = ''2026-02-02'', score_id = ''id-1''\<rparr>])],
          \<lparr>username = '''', guesses = 3, time_seconds = 95,
            puzzle_date = ''2026-02-02'', score_id = ''id-1''\<rparr>)"
  by (simp add: submit_score_ok init_scores_def uuid_example_draws day_scores_def with_day_def)

subsection \<open>C4: the ordering law\<close>

text \<open>
  Claim C4. For every store, date and limit, any two entries \<open>a\<close>, \<open>b\<close> of the result of
  \<open>get_leaderboard\<close> with \<open>rank a < rank b\<close> have \<open>guesses a < guesses b\<close>, or equal guesses
  and \<open>time_seconds a \<le> time_seconds b\<close>.
\<close>

theorem ordering_law:
  "\<forall>a \<in> set (get_leaderboard scores pd limit). \<forall>b \<in> set (get_leaderboard scores pd limit).
     rank a < rank b \<longrightarrow>
       entry_guesses a < entry_guesses b
       \<or> entry_guesses a = entry_guesses b \<and> entry_time_seconds a \<le> entry_time_seconds b"
proof (intro ballI impI)
  fix a b
  assume a: "a \<in> set (get_leaderboard scores pd limit)"
    and b: "b \<in> set (get_leaderboard scores pd limit)"
    and lt: "rank a < rank b"
  from a obtain i where i: "a = get_leaderboard scores pd limit ! i" "rank a = 1 + int i"
    by (rule entry_position)
  from b obtain j where j: "j < length (get_leaderboard scores pd limit)"
    "b = get_leaderboard scores pd limit ! j" "rank b = 1 + int j"
    by (rule entry_position)
  from lt i(2) j(3) have "i < j" by simp
  from ordering_by_index [OF this j(1)] i(1) j(2)
  show "entry_guesses a < entry_guesses b
       \<or> entry_guesses a = entry_guesses b \<and> entry_time_seconds a \<le> entry_time_seconds b"
    by simp
qed

theorem ordering_law_witness:
  "get_leaderboard example_scores ''2026-02-02'' 5 = example_entries
   \<and> rank (example_entries ! 1) < rank (example_entries ! 2)
   \<and> entry_guesses (example_entries ! 1) = entry_guesses (example_entries ! 2)
   \<and> entry_time_seconds (example_entries ! 1) \<le> entry_time_seconds (example_entries ! 2)
   \<and> rank (example_entries ! 2) < rank (example_entries ! 3)
   \<and> entry_guesses (example_entries ! 2) < entry_guesses (example_entries ! 3)"
  using ordering_law [of example_scores "''2026-02-02''" 5]
  by (simp add: example_leaderboard) (simp add: example_entries_def)

subsection \<open>C5: the limit and the numbering of ranks\<close>

text \<open>
  Claim C5. For every store, every date and every limit from 1 to 10, \<open>get_leaderboard\<close>
  returns exactly \<open>min(limit, len(records))\<close> entries, and their ranks are 1, 2, ... up to
  that number, in the order of the output.
\<close>

theorem limit_and_rank_law:
  assumes "1 \<le> limit" and "limit \<le> 10"
  shows "length (get_leaderboard scores pd limit) = min (nat limit) (length (day_scores scores pd))
       \<and> map rank (get_leaderboard scores pd limit)
           = map int [1..<Suc (min (nat limit) (length (day_scores scores pd)))]"
proof -
  from assms have len: "length (get_leaderboard scores pd limit)
      = min (nat limit) (length (day_scores scores pd))"
    by (simp add: get_leaderboard_length slice_to_length py_sorted_def)
  have "map rank (get_leaderboard scores pd limit)
      = map (\<lambda>i. 1 + int i) [0..<length (get_leaderboard scores pd limit)]"
    by (rule get_leaderboard_ranks)
  also have "\<dots> = map int (map Suc [0..<length (get_leaderboard scores pd limit)])"
    by simp
  also have "\<dots> = map int [1..<Suc (length (get_leaderboard scores pd limit))]"
    by (simp only: map_Suc_upt One_nat_def)
  finally show ?thesis using len by simp
qed

theorem limit_and_rank_law_witness:
  "length (get_leaderboard example_scores ''2026-02-02'' 2) = 2
   \<and> length (day_scores example_scores ''2026-02-02'') = 4
   \<and> map rank (get_leaderboard example_scores ''2026-02-02'' 2) = [1, 2]"
proof -
  have "(1::int) \<le> 2" and "(2::int) \<le> 10" by simp_all
  then have "length (get_leaderboard example_scores ''2026-02-02'' 2)
        = min (nat 2) (length (day_scores example_scores ''2026-02-02''))
      \<and> map rank (get_leaderboard example_scores ''2026-02-02'' 2)
        = map int [1..<Suc (min (nat 2) (length (day_scores example_scores ''2026-02-02'')))]"
    by (rule limit_and_rank_law)
  moreover have "length (day_scores example_scores ''2026-02-02'') = 4"
    by (simp add: example_day_scores example_day_def)
  moreover have "map int [1..<Suc 2] = [1, 2]"
    by (simp add: eval_nat_numeral)
  ultimately show ?thesis by simp
qed

subsection \<open>C6: ties keep their order, and a repeated query gives the same answer\<close>

text \<open>
  Claim C6. For every store, date, limit and key \<open>(guesses, time_seconds)\<close>, the entries of
  the leaderboard with that key, read as (username, guesses, time), are an initial part of
  the stored scores of the day with that key in the order of their submission: tied scores
  keep their relative order (the limit may cut the last ones off). A call of
  \<open>get_leaderboard\<close> leaves the store as it was, and a second call with the same date and
  limit returns what the first one returned.
\<close>

theorem tie_stability_and_determinism:
  "prefix
     (map (\<lambda>e. (entry_username e, entry_guesses e, entry_time_seconds e))
        (filter (\<lambda>e. (entry_guesses e, entry_time_seconds e) = k)
           (get_leaderboard scores pd limit)))
     (map (\<lambda>s. (username s, guesses s, time_seconds s))
        (filter (\<lambda>s. (guesses s, time_seconds s) = k) (day_scores scores pd)))
   \<and> fst (call_service scores (GetLeaderboard pd limit)) = scores
   \<and> snd (call_service (fst (call_service scores (GetLeaderboard pd limit)))
            (GetLeaderboard pd limit))
       = snd (call_service scores (GetLeaderboard pd limit))"
  using tie_order_prefix [of k scores pd limit] by simp

theorem tie_stability_and_determinism_witness:
  "map (\<lambda>e. (entry_username e, entry_guesses e, entry_time_seconds e))
     (filter (\<lambda>e. (entry_guesses e, entry_time_seconds e) = (3, 95))
        (get_leaderboard example_scores ''2026-02-02'' 5))
     = [(''BraveOtter'', 3, 95), (''Second'', 3, 95)]
   \<and> map (\<lambda>s. (username s, guesses s, time_seconds s))
     (filter (\<lambda>s. (guesses s, time_seconds s) = (3, 95)) (day_scores example_scores ''2026-02-02''))
     = [(''BraveOtter'', 3, 95), (''Second'', 3, 95)]
   \<and> snd (call_service (fst (call_service example_scores (GetLeaderboard ''2026-02-02'' 5)))
            (GetLeaderboard ''2026-02-02'' 5))
     = Entries example_entries"
  using tie_stability_and_determinism [of "(3, 95)" example_scores "''2026-02-02''" 5]
  by (simp add: example_leaderboard example_day_scores)
     (simp add: example_entries_def example_day_def)

subsection \<open>C7: a submission only adds\<close>

text \<open>
  Claim C7. A successful \<open>submit_score\<close> for a date appends exactly one score, the one it
  returns, to the list of that date, whose length grows by one; the scores the list held
  are the same and in the same place; the list of every other date is unchanged. The dates
  keep their order, with the new date at the end if it had no list.
\<close>

theorem additive_frame:
  assumes "submit_score scores rnd g t pd uname = Inr (scores', score)"
  shows "day_scores scores' pd = day_scores scores pd @ [score]
       \<and> length (day_scores scores' pd) = length (day_scores scores pd) + 1
       \<and> (\<forall>d. d \<noteq> pd \<longrightarrow> map_of scores' d = map_of scores d)
       \<and> get_all_dates scores'
           = (if pd \<in> set (get_all_dates scores) then get_all_dates scores
              else get_all_dates scores @ [pd])"
proof -
  from assms have st: "scores' = AList.update pd (day_scores scores pd @ [score]) (with_day scores pd)"
    by (simp add: submit_score_Inr)
  have day: "day_scores scores' pd = day_scores scores pd @ [score]"
    by (simp add: st day_scores_def update_conv')
  have other: "\<forall>d. d \<noteq> pd \<longrightarrow> map_of scores' d = map_of scores d"
    by (simp add: st update_conv' with_day_other)
  have "map fst scores' = (if pd \<in> set (map fst scores) then map fst scores else map fst scores @ [pd])"
  proof (cases "map_of scores pd = None")
    case True
    then have "pd \<notin> set (map fst scores)" by (simp add: map_of_eq_None_iff)
    with True show ?thesis by (simp add: st with_day_def update_keys)
  next
    case False
    then have mem: "pd \<in> set (map fst scores)" by (simp add: map_of_eq_None_iff)
    from False have "with_day scores pd = scores" unfolding with_day_def by (rule if_not_P)
    with mem show ?thesis by (simp add: st update_keys)
  qed
  with day other show ?thesis by (simp add: get_all_dates_def)
qed

theorem additive_frame_witness:
  "submit_score example_scores (example_draws 2 ''id-6'') 5 300 ''2026-02-03'' None =
     Inr (example_scores @ [(''2026-02-03'', [example_next])], example_next)
   \<and> day_scores (example_scores @ [(''2026-02-03'', [example_next])]) ''2026-02-03''
       = day_scores example_scores ''2026-02-03'' @ [example_next]
   \<and> map_of (example_scores @ [(''2026-02-03'', [example_next])]) ''2026-02-02''
       = Some example_day
   \<and> get_all_dates (example_scores @ [(''2026-02-03'', [example_next])])
       = [''2026-02-02'', ''2026-02-03'']"
  using additive_frame [OF example_next_submit] example_next_submit
  by (simp add: example_scores_def get_all_dates_def day_scores_def)

subsection \<open>C8: a day without submissions\<close>

text \<open>
  Claim C8. For every date with no stored submission (no list, or an empty one) and every
  limit, \<open>get_leaderboard\<close> raises nothing and returns the empty list.
\<close>

theorem empty_day:
  assumes "day_scores scores pd = []"
  shows "get_leaderboard scores pd limit = []
       \<and> call_service scores (GetLeaderboard pd limit) = (scores, Entries [])"
  using assms by (simp add: get_leaderboard_def py_sorted_def slice_to_def)

theorem empty_day_witness:
  "day_scores example_scores ''2026-02-03'' = []
   \<and> get_leaderboard example_scores ''2026-02-03'' 5 = []
   \<and> call_service example_scores (GetLeaderboard ''2026-02-03'' 5) = (example_scores, Entries [])"
proof -
  have "day_scores example_scores ''2026-02-03'' = []"
    by (simp add: example_scores_def day_scores_def)
  with empty_day [OF this, of 5] show ?thesis by simp
qed

subsection \<open>C9: the display law\<close>

text \<open>
  Claim C9 asks for \<open>guesses\<close> repetitions of one marker glyph. The code repeats the
  literal of \<open>_format_guesses_emoji\<close>, and that literal is not one glyph: it is the two
  code points U+6E38 U+B9B4, where the documentation shows the green block U+1F7E9. So in
  every state reached from the empty store, every entry that \<open>get_leaderboard\<close> returns
  has at least one guess, its \<open>guesses_display\<close> is the two code points repeated
  \<open>guesses\<close> times, which is twice as many code points as guesses, and it is not
  \<open>guesses\<close> green blocks.
\<close>

theorem display_repeats_two_code_points:
  "\<forall>e \<in> set (get_leaderboard (run init_scores cs) pd limit).
     1 \<le> entry_guesses e
     \<and> guesses_display e = concat (replicate (nat (entry_guesses e)) [0x6E38, 0xB9B4])
     \<and> int (length (guesses_display e)) = 2 * entry_guesses e
     \<and> guesses_display e \<noteq> replicate (nat (entry_guesses e)) GREEN_BLOCK"
proof
  fix e
  assume "e \<in> set (get_leaderboard (run init_scores cs) pd limit)"
  then obtain r s where s: "s \<in> set (day_scores (run init_scores cs) pd)"
    and e: "e = make_entry r s"
    using entry_source by blast
  from s day_scores_subset have "s \<in> set (all_records (run init_scores cs))"
    by blast
  with run_guesses_range [of init_scores cs] have "1 \<le> guesses s"
    by (simp add: all_records_init)
  then have g: "1 \<le> entry_guesses e"
    by (simp add: e make_entry_fields)
  have d: "guesses_display e = concat (replicate (nat (entry_guesses e)) [0x6E38, 0xB9B4])"
    by (simp add: e make_entry_fields format_guesses_emoji_replicate MARKER_def)
  then have "length (guesses_display e) = nat (entry_guesses e) * 2"
    by (simp only: length_concat_replicate) simp
  with g have len: "int (length (guesses_display e)) = 2 * entry_guesses e"
    by simp
  from g len have "length (guesses_display e)
      \<noteq> length (replicate (nat (entry_guesses e)) GREEN_BLOCK)"
    by simp
  then have "guesses_display e \<noteq> replicate (nat (entry_guesses e)) GREEN_BLOCK"
    by (rule contrapos_nn) (rule arg_cong)
  with g d len show "1 \<le> entry_guesses e
     \<and> guesses_display e = concat (replicate (nat (entry_guesses e)) [0x6E38, 0xB9B4])
     \<and> int (length (guesses_display e)) = 2 * entry_guesses e
     \<and> guesses_display e \<noteq> replicate (nat (entry_guesses e)) GREEN_BLOCK"
    by simp
qed

text \<open>
  The failing input: one submission with four guesses on the empty store, then the
  leaderboard of its day. The display has eight code points, and the documented display
  of four guesses is four green blocks.
\<close>

theorem display_repeats_two_code_points_witness:
  "get_leaderboard
     (run init_scores [SubmitScore (example_draws 0 ''id-1'') 4 120 ''2026-02-02'' None])
     ''2026-02-02'' 5
   = [\<lparr>rank = 1, entry_username = ''SwiftFalcon'', entry_guesses = 4,
       guesses_display = [0x6E38, 0xB9B4, 0x6E38, 0xB9B4, 0x6E38, 0xB9B4, 0x6E38, 0xB9B4],
       entry_time_seconds = 120\<rparr>]
   \<and> length [0x6E38, 0xB9B4, 0x6E38, 0xB9B4, 0x6E38, 0xB9B4, 0x6E38, 0xB9B4 :: codepoint] = 8
   \<and> [0x6E38, 0xB9B4, 0x6E38, 0xB9B4, 0x6E38, 0xB9B4, 0x6E38, 0xB9B4]
       \<noteq> [GREEN_BLOCK, GREEN_BLOCK, GREEN_BLOCK, GREEN_BLOCK]"
proof -
  let ?calls = "[SubmitScore (example_draws 0 ''id-1'') 4 120 ''2026-02-02'' None]"
  let ?d = "[0x6E38, 0xB9B4, 0x6E38, 0xB9B4, 0x6E38, 0xB9B4, 0x6E38, 0xB9B4 :: codepoint]"
  let ?e = "\<lparr>rank = 1, entry_username = ''SwiftFalcon'', entry_guesses = 4,
             guesses_display = ?d, entry_time_seconds = 120\<rparr>"
  have "get_leaderboard (run init_scores ?calls) ''2026-02-02'' 5
      = [make_entry 1 (example_day ! 0)]"
    by (simp add: example_first_submit get_leaderboard_def day_scores_def py_sorted_def
         slice_to_def)
  moreover have "make_entry 1 (example_day ! 0) = ?e"
    by (simp add: make_entry_def example_day_def format_guesses_emoji_def str_mul_values
         MARKER_def)
  ultimately have board: "get_leaderboard (run init_scores ?calls) ''2026-02-02'' 5 = [?e]"
    by (simp only:)
  then have "?e \<in> set (get_leaderboard (run init_scores ?calls) ''2026-02-02'' 5)"
    by (simp only: list.set insertI1)
  with display_repeats_two_code_points [of ?calls "''2026-02-02''" 5]
  have law: "int (length (guesses_display ?e)) = 2 * entry_guesses ?e
      \<and> guesses_display ?e \<noteq> replicate (nat (entry_guesses ?e)) GREEN_BLOCK"
    by blast
  have "replicate (nat 4) GREEN_BLOCK = [GREEN_BLOCK, GREEN_BLOCK, GREEN_BLOCK, GREEN_BLOCK]"
    by (simp add: eval_nat_numeral)
  with law have "length ?d = 8"
    and "?d \<noteq> [GREEN_BLOCK, GREEN_BLOCK, GREEN_BLOCK, GREEN_BLOCK]"
    by simp_all
  with board show ?thesis by blast
qed

end
